theory Spec2Isabelle
  imports Main "HOL-Library.Sublist"
begin

section \<open>Python strings\<close>

text \<open>
  A Python 3 \<^verbatim>\<open>str\<close> is a sequence of Unicode code points and \<^verbatim>\<open>len\<close> counts code
  points. The program's literals contain code points beyond ASCII, so a string is
  modelled as the list of its code points.
\<close>

type_synonym pystr = "nat list"

text \<open>
  \<^verbatim>\<open>s[:n]\<close> for an integer \<^verbatim>\<open>n\<close>: a negative \<^verbatim>\<open>n\<close> counts from the end, and an
  index outside the string is clipped.
\<close>

definition slice_to :: "'a list \<Rightarrow> int \<Rightarrow> 'a list" where
  "slice_to s n = (if n < 0 then take (nat (int (length s) + n)) s else take (nat n) s)"

text \<open>
  \<^verbatim>\<open>s.rfind(c)\<close> for a one-character string \<^verbatim>\<open>c\<close>: the highest index at which
  \<^verbatim>\<open>c\<close> occurs, or \<^verbatim>\<open>-1\<close> when it does not occur.
\<close>

fun rfind :: "'a list \<Rightarrow> 'a \<Rightarrow> int" where
  "rfind [] c = - 1"
| "rfind (x # xs) c =
     (let r = rfind xs c
      in if 0 \<le> r then r + 1 else if x = c then 0 else - 1)"

section \<open>The length guard\<close>

text \<open>
  The literal appended at line 116 of \<^verbatim>\<open>app.py\<close>: two newlines, then
  \<^verbatim>\<open>*(zkr\<close> U+00E1 \<^verbatim>\<open>ceno\<close> U+2014 \<^verbatim>\<open>otev\<close> U+0159 \<^verbatim>\<open>i\<close> U+00FA \<^verbatim>\<open>plnou historii v DB)*\<close>.
\<close>

definition truncation_marker :: pystr where
  "truncation_marker =
     [10, 10, 42, 40, 122, 107, 114, 225, 99, 101, 110, 111, 32, 8212, 32,
      111, 116, 101, 118, 345, 105, 32, 250, 112, 108, 110, 111, 117, 32,
      104, 105, 115, 116, 111, 114, 105, 105, 32, 118, 32, 68, 66, 41, 42]"

definition newline :: nat where
  "newline = 10"

definition default_limit :: int where
  "default_limit = 4000"

definition ensure_telegram_length :: "pystr \<Rightarrow> int \<Rightarrow> pystr" where
  "ensure_telegram_length text limit =
     (if int (length text) \<le> limit then text
      else
        let cut = slice_to text (limit - 200);
            last_newline = rfind cut newline;
            cut = (if last_newline > 0 then slice_to cut last_newline else cut)
        in cut @ truncation_marker)"

text \<open>
  The specification's wording of the same guard, for comparison with the code: cut at
  \<open>limit - 200\<close>, back up to the nearest preceding line boundary if one exists within
  the cut region, and append the marker. Backing up drops the boundary and what follows
  it, as the code does where it backs up.
\<close>

definition spec_truncate :: "pystr \<Rightarrow> int \<Rightarrow> pystr" where
  "spec_truncate text limit =
     (let cut = take (nat (limit - 200)) text
      in (if newline \<in> set cut
          then rev (tl (dropWhile (\<lambda>c. c \<noteq> newline) (rev cut)))
          else cut) @ truncation_marker)"

section \<open>Markup escaping\<close>

text \<open>
  \<^verbatim>\<open>s.replace(old, new)\<close>: every non-overlapping occurrence of \<^verbatim>\<open>old\<close>, found
  from the left, is replaced by \<^verbatim>\<open>new\<close>; an empty \<^verbatim>\<open>old\<close> matches before every
  character and at the end.
\<close>

fun str_replace :: "'a list \<Rightarrow> 'a list \<Rightarrow> 'a list \<Rightarrow> 'a list" where
  "str_replace [] old new = (if old = [] then new else [])"
| "str_replace (x # xs) old new =
     (if old = [] then new @ x # str_replace xs old new
      else if prefix old (x # xs)
        then new @ str_replace (drop (length old) (x # xs)) old new
      else x # str_replace xs old new)"

definition backslash :: nat where
  "backslash = 92"

text \<open>Line 137: the four chained replacements, in the order of the source.\<close>

definition escape_markdown :: "pystr \<Rightarrow> pystr" where
  "escape_markdown msg =
     str_replace
       (str_replace
          (str_replace
             (str_replace msg [95] [backslash, 95])
             [42] [backslash, 42])
          [96] [backslash, 96])
       [91] [backslash, 91]"

definition metachar :: "nat \<Rightarrow> bool" where
  "metachar c \<longleftrightarrow> c = 95 \<or> c = 42 \<or> c = 96 \<or> c = 91"

text \<open>Every markup metacharacter of a text stands right after a backslash.\<close>

definition escaped :: "pystr \<Rightarrow> bool" where
  "escaped ys \<longleftrightarrow>
     (\<forall>i<length ys. metachar (ys ! i) \<longrightarrow> 0 < i \<and> ys ! (i - 1) = backslash)"

section \<open>Errors and decoded JSON\<close>

datatype error =
    SystemExit pystr
  | ValueError
  | RequestException
  | HTTPError nat
  | JSONDecodeError
  | KeyError
  | IndexError
  | TypeError
  | AttributeError
  | DatabaseError
  | OperationalError
  | UnicodeEncodeError
  | OverflowError
  | DataError

text \<open>
  What \<^verbatim>\<open>r.json()\<close> returns. The type \<open>'f\<close> stands for Python's floats, about which
  nothing is assumed. A \<^verbatim>\<open>dict\<close> decoded from JSON has string keys; it is kept as
  an association list in the order of the document.
\<close>

datatype 'f pyval =
    PNone
  | PBool bool
  | PInt int
  | PFloat 'f
  | PStr pystr
  | PList "'f pyval list"
  | PDict "(pystr \<times> 'f pyval) list"

text \<open>\<^verbatim>\<open>v[k]\<close> for a string key \<^verbatim>\<open>k\<close>.\<close>

definition getitem_key :: "'f pyval \<Rightarrow> pystr \<Rightarrow> error + 'f pyval" where
  "getitem_key v k =
     (case v of
        PDict kvs \<Rightarrow> (case map_of kvs k of None \<Rightarrow> Inl KeyError | Some x \<Rightarrow> Inr x)
      | _ \<Rightarrow> Inl TypeError)"

text \<open>
  \<^verbatim>\<open>v[0]\<close>: the first element of a list, the first character of a string (as a
  one-character string), \<^verbatim>\<open>KeyError\<close> on a dict decoded from JSON (its keys are
  strings), \<^verbatim>\<open>TypeError\<close> on everything else.
\<close>

definition getitem_0 :: "'f pyval \<Rightarrow> error + 'f pyval" where
  "getitem_0 v =
     (case v of
        PList xs \<Rightarrow> (case xs of [] \<Rightarrow> Inl IndexError | x # _ \<Rightarrow> Inr x)
      | PStr s \<Rightarrow> (case s of [] \<Rightarrow> Inl IndexError | c # _ \<Rightarrow> Inr (PStr [c]))
      | PDict kvs \<Rightarrow> Inl KeyError
      | _ \<Rightarrow> Inl TypeError)"

definition and_then :: "error + 'a \<Rightarrow> ('a \<Rightarrow> error + 'b) \<Rightarrow> error + 'b" where
  "and_then r f = (case r of Inl e \<Rightarrow> Inl e | Inr x \<Rightarrow> f x)"

text \<open>The characters \<^verbatim>\<open>str.strip()\<close> removes: those for which \<^verbatim>\<open>str.isspace\<close> holds.\<close>

definition isspace :: "nat \<Rightarrow> bool" where
  "isspace c \<longleftrightarrow>
     (9 \<le> c \<and> c \<le> 13) \<or> (28 \<le> c \<and> c \<le> 32) \<or> c = 133 \<or> c = 160 \<or> c = 5760 \<or>
     (8192 \<le> c \<and> c \<le> 8202) \<or> c = 8232 \<or> c = 8233 \<or> c = 8239 \<or> c = 8287 \<or> c = 12288"

definition strip :: "pystr \<Rightarrow> pystr" where
  "strip s = rev (dropWhile isspace (rev (dropWhile isspace s)))"

text \<open>\<^verbatim>\<open>content.strip()\<close> on whatever \<^verbatim>\<open>content\<close> is: only a string has the method.\<close>

definition call_strip :: "'f pyval \<Rightarrow> error + pystr" where
  "call_strip v = (case v of PStr s \<Rightarrow> Inr (strip s) | _ \<Rightarrow> Inl AttributeError)"

section \<open>The environment of a run\<close>

text \<open>
  The builtins whose exact behaviour is outside the repository: \<^verbatim>\<open>int\<close> and
  \<^verbatim>\<open>float\<close> on a string (\<open>None\<close> is \<^verbatim>\<open>ValueError\<close>), and
  \<^verbatim>\<open>json.dumps(data, ensure_ascii=False, indent=2)\<close>.
\<close>

record 'f builtins =
  py_int :: "pystr \<Rightarrow> int option"
  py_float :: "pystr \<Rightarrow> 'f option"
  json_dumps :: "'f pyval \<Rightarrow> pystr"

datatype 'f body = Not_json | Json "'f pyval"

text \<open>
  The outcome of one \<^verbatim>\<open>requests.post\<close>: no response within the timeout or a
  connection error, or a response with a status code and a body. A world holds the
  two outcomes, the two readings of the clock and the largest number of bytes SQLite
  accepts for a text value (\<^verbatim>\<open>SQLITE_LIMIT_LENGTH\<close>, 1000000000 unless built otherwise).
\<close>

datatype 'f http_reply = No_reply | Reply nat "'f body"

record 'f world =
  openai_reply :: "'f http_reply"
  telegram_reply :: "'f http_reply"
  utcnow_isoformat :: pystr
  now_strftime :: pystr
  sqlite_limit_length :: nat

record 'f config =
  OPENAI_API_KEY :: pystr
  OPENAI_MODEL :: pystr
  TG_BOT_TOKEN :: pystr
  TG_CHAT_ID :: pystr
  MAX_TOKENS :: int
  TEMPERATURE :: 'f
  DB_PATH :: pystr
  SEND_AS_MARKDOWN :: bool

definition environ_get :: "(string \<rightharpoonup> pystr) \<Rightarrow> string \<Rightarrow> pystr \<Rightarrow> pystr" where
  "environ_get env k d = (case env k of None \<Rightarrow> d | Some v \<Rightarrow> v)"

text \<open>Truth value of \<^verbatim>\<open>os.environ.get(k)\<close>: \<^verbatim>\<open>None\<close> and the empty string are false.\<close>

definition truthy :: "pystr option \<Rightarrow> bool" where
  "truthy v = (case v of None \<Rightarrow> False | Some s \<Rightarrow> s \<noteq> [])"

definition missing_env_message :: pystr where
  "missing_env_message =
     [67, 104, 121, 98, 237, 32, 101, 110, 118, 32, 112, 114, 111, 109, 283, 110,
      110, 233, 46, 32, 78, 97, 115, 116, 97, 118, 32, 79, 80, 69, 78, 65,
      73, 95, 65, 80, 73, 95, 75, 69, 89, 44, 32, 84, 71, 95, 66, 79,
      84, 95, 84, 79, 75, 69, 78, 44, 32, 84, 71, 95, 67, 72, 65, 84,
      95, 73, 68, 46]"

text \<open>
  Lines 17 to 28, in the order of the source: \<^verbatim>\<open>int\<close> and \<^verbatim>\<open>float\<close> are applied
  at lines 22 and 23, before the check of the three credentials at line 27.
\<close>

definition load_config :: "'f builtins \<Rightarrow> (string \<rightharpoonup> pystr) \<Rightarrow> error + 'f config" where
  "load_config b env =
     (case py_int b (environ_get env ''MAX_TOKENS'' [54, 48, 48]) of
        None \<Rightarrow> Inl ValueError
      | Some max_tokens \<Rightarrow>
     (case py_float b (environ_get env ''TEMPERATURE'' [48, 46, 52]) of
        None \<Rightarrow> Inl ValueError
      | Some temperature \<Rightarrow>
     (if \<not> (truthy (env ''OPENAI_API_KEY'') \<and> truthy (env ''TG_BOT_TOKEN'')
             \<and> truthy (env ''TG_CHAT_ID''))
      then Inl (SystemExit missing_env_message)
      else Inr \<lparr>OPENAI_API_KEY = environ_get env ''OPENAI_API_KEY'' [],
                OPENAI_MODEL =
                  environ_get env ''OPENAI_MODEL''
                    [103, 112, 116, 45, 52, 111, 45, 109, 105, 110, 105],
                TG_BOT_TOKEN = environ_get env ''TG_BOT_TOKEN'' [],
                TG_CHAT_ID = environ_get env ''TG_CHAT_ID'' [],
                MAX_TOKENS = max_tokens,
                TEMPERATURE = temperature,
                DB_PATH =
                  environ_get env ''DB_PATH'' [116, 111, 112, 105, 99, 115, 46, 100, 98],
                SEND_AS_MARKDOWN = (environ_get env ''SEND_AS_MARKDOWN'' [49] = [49])\<rparr>)))"

definition PROMPT :: pystr where
  "PROMPT =
     [10, 74, 115, 105, 32, 117, 269, 105, 116, 101, 108, 44, 32, 107, 116, 101,
      114, 253, 32, 107, 97, 382, 100, 253, 32, 100, 101, 110, 32, 110, 97, 118,
      114, 104, 110, 101, 32, 106, 101, 100, 110, 111, 32, 112, 114, 97, 107, 116,
      105, 99, 107, 233, 32, 116, 233, 109, 97, 32, 107, 32, 115, 97, 109, 111,
      115, 116, 117, 100, 105, 117, 46, 32, 86, 253, 115, 116, 117, 112, 32, 100,
      101, 106, 32, 118, 32, 269, 101, 353, 116, 105, 110, 283, 32, 112, 345, 101,
      115, 110, 283, 32, 118, 32, 116, 111, 109, 116, 111, 32, 102, 111, 114, 109,
      225, 116, 117, 58, 10, 10, 84, 233, 109, 97, 58, 32, 60, 110, 225, 122,
      101, 118, 62, 10, 75, 97, 116, 101, 103, 111, 114, 105, 101, 58, 32, 60,
      110, 97, 112, 345, 46, 32, 104, 105, 115, 116, 111, 114, 105, 101, 44, 32,
      112, 114, 111, 103, 114, 97, 109, 111, 118, 225, 110, 237, 44, 32, 106, 97,
      122, 121, 107, 121, 44, 32, 118, 283, 100, 97, 62, 10, 218, 114, 111, 118,
      101, 328, 58, 32, 60, 122, 97, 269, 225, 116, 101, 269, 110, 237, 107, 32,
      124, 32, 115, 116, 345, 101, 100, 110, 283, 32, 124, 32, 112, 111, 107, 114,
      111, 269, 105, 108, 253, 62, 10, 67, 237, 108, 32, 117, 269, 101, 110, 237,
      32, 40, 49, 32, 118, 283, 116, 97, 41, 58, 32, 60, 107, 111, 110, 107,
      114, 233, 116, 110, 237, 32, 109, 283, 345, 105, 116, 101, 108, 110, 253, 32,
      99, 237, 108, 62, 10, 49, 48, 8211, 51, 48, 115, 32, 115, 104, 114, 110,
      117, 116, 237, 32, 40, 99, 111, 32, 116, 111, 32, 106, 101, 41, 58, 10,
      51, 32, 110, 225, 112, 97, 100, 121, 44, 32, 106, 97, 107, 32, 115, 101,
      32, 116, 111, 109, 117, 32, 117, 269, 105, 116, 32, 100, 110, 101, 115, 32,
      40, 107, 111, 110, 107, 114, 233, 116, 110, 237, 32, 269, 105, 110, 110, 111,
      115, 116, 105, 44, 32, 115, 32, 269, 97, 115, 121, 41, 58, 10, 82, 121,
      99, 104, 108, 233, 32, 122, 100, 114, 111, 106, 101, 32, 40, 49, 8211, 51,
      32, 111, 100, 107, 97, 122, 121, 32, 110, 101, 98, 111, 32, 110, 225, 122,
      118, 121, 32, 107, 110, 105, 104, 32, 47, 32, 118, 105, 100, 101, 237, 41,
      58, 10, 78, 225, 115, 108, 101, 100, 117, 106, 237, 99, 237, 32, 107, 114,
      111, 107, 32, 110, 97, 32, 122, 237, 116, 114, 97, 32, 40, 106, 101, 100,
      110, 97, 32, 118, 283, 99, 41, 58, 10, 75, 114, 225, 116, 107, 225, 32,
      109, 111, 116, 105, 118, 97, 269, 110, 237, 32, 118, 283, 116, 97, 32, 40,
      109, 97, 120, 32, 50, 48, 32, 115, 108, 111, 118, 41, 46, 10, 10, 86,
      121, 103, 101, 110, 101, 114, 117, 106, 32, 106, 101, 100, 110, 111, 32, 111,
      114, 105, 103, 105, 110, 225, 108, 110, 237, 32, 116, 233, 109, 97, 32, 8212,
      32, 98, 117, 271, 32, 107, 111, 110, 107, 114, 233, 116, 110, 237, 32, 97,
      32, 112, 114, 97, 107, 116, 105, 99, 107, 253, 46, 32, 78, 101, 112, 105,
      353, 32, 110, 105, 99, 32, 106, 105, 110, 233, 104, 111, 32, 110, 101, 382,
      32, 118, 253, 115, 116, 117, 112, 32, 118, 32, 112, 345, 101, 115, 110, 233,
      109, 32, 116, 118, 97, 114, 117, 46, 10]"

section \<open>The history store\<close>

record row =
  row_id :: int
  created_utc :: pystr
  content :: pystr

text \<open>
  A table created by line 76: its rows in insertion order, and the largest row id ever
  used, which \<^verbatim>\<open>AUTOINCREMENT\<close> keeps. A table named \<^verbatim>\<open>topics\<close> is taken to have
  the three columns of line 76. Failures of the disk and locks held by other processes
  are not part of the model.
\<close>

record table =
  rows :: "row list"
  seq :: int

text \<open>
  The file at \<^verbatim>\<open>DB_PATH\<close>: a database with its tables by name (an absent or empty
  file is the database without tables), or a file that SQLite refuses.
\<close>

datatype db_file = Not_a_database | Database "string \<rightharpoonup> table"

text \<open>
  What a run does to the outside, in order: the requests it issues, the transactions
  it commits and the lines it prints.
\<close>

datatype 'f event =
    Post_openai pystr pystr pystr int 'f
  | Post_telegram pystr pystr pystr bool
  | Commit_schema
  | Commit_row row
  | Print_error error
  | Print_done

record 'f state =
  db :: db_file
  trace :: "'f event list"

definition emit :: "'f event \<Rightarrow> 'f state \<Rightarrow> 'f state" where
  "emit ev s = s\<lparr>trace := trace s @ [ev]\<rparr>"

definition init_db :: "'f state \<Rightarrow> (error + unit) \<times> 'f state" where
  "init_db s =
     (case db s of
        Not_a_database \<Rightarrow> (Inl DatabaseError, s)
      | Database tabs \<Rightarrow>
          (Inr (),
           emit Commit_schema
             (s\<lparr>db := Database
                   (case tabs ''topics'' of
                      None \<Rightarrow> tabs(''topics'' \<mapsto> \<lparr>rows = [], seq = 0\<rparr>)
                    | Some t \<Rightarrow> tabs)\<rparr>)))"

definition next_row_id :: "table \<Rightarrow> int" where
  "next_row_id t = max (seq t) (fold max (map row_id (rows t)) 0) + 1"

text \<open>
  Binding a string to a parameter of the \<^verbatim>\<open>INSERT\<close> of line 88 encodes it to UTF-8. A
  lone surrogate (U+D800 to U+DFFF) has no encoding and raises
  \<^verbatim>\<open>UnicodeEncodeError\<close>; an encoding of more than \<open>2\<^sup>3\<^sup>1 - 1\<close> bytes raises
  \<^verbatim>\<open>OverflowError\<close>; one longer than SQLite's limit is refused with
  \<^verbatim>\<open>DataError\<close> (\<^verbatim>\<open>InterfaceError\<close> before Python 3.11).
\<close>

definition utf8_encodable :: "pystr \<Rightarrow> bool" where
  "utf8_encodable s = list_all (\<lambda>c. c < 55296 \<or> (57343 < c \<and> c \<le> 1114111)) s"

definition utf8_width :: "nat \<Rightarrow> nat" where
  "utf8_width c = (if c < 128 then 1 else if c < 2048 then 2 else if c < 65536 then 3 else 4)"

definition utf8_length :: "pystr \<Rightarrow> nat" where
  "utf8_length s = sum_list (map utf8_width s)"

definition bind_text :: "'f world \<Rightarrow> pystr \<Rightarrow> error option" where
  "bind_text w s =
     (if \<not> utf8_encodable s then Some UnicodeEncodeError
      else if 2147483647 < utf8_length s then Some OverflowError
      else if sqlite_limit_length w < utf8_length s then Some DataError
      else None)"

text \<open>
  What makes the \<^verbatim>\<open>INSERT\<close> raise on an existing table: one of the two bound values,
  in the order of the parameters, or the row ids being used up (\<^verbatim>\<open>AUTOINCREMENT\<close>
  never reuses an id, and the largest is \<open>2\<^sup>6\<^sup>3 - 1\<close>).
\<close>

definition insert_error :: "'f world \<Rightarrow> pystr \<Rightarrow> table \<Rightarrow> error option" where
  "insert_error w topic t =
     (case bind_text w (utcnow_isoformat w) of
        Some e \<Rightarrow> Some e
      | None \<Rightarrow>
     (case bind_text w topic of
        Some e \<Rightarrow> Some e
      | None \<Rightarrow>
          if 9223372036854775807 < next_row_id t then Some OperationalError else None))"

definition save_topic :: "'f world \<Rightarrow> pystr \<Rightarrow> 'f state \<Rightarrow> (error + unit) \<times> 'f state" where
  "save_topic w topic s =
     (case db s of
        Not_a_database \<Rightarrow> (Inl DatabaseError, s)
      | Database tabs \<Rightarrow>
          (case tabs ''topics'' of
             None \<Rightarrow> (Inl OperationalError, s)
           | Some t \<Rightarrow>
               (case insert_error w topic t of
                  Some e \<Rightarrow> (Inl e, s)
                | None \<Rightarrow>
                    let r = \<lparr>row_id = next_row_id t, created_utc = utcnow_isoformat w,
                             content = topic\<rparr>
                    in (Inr (),
                        emit (Commit_row r)
                          (s\<lparr>db := Database
                                (tabs(''topics'' \<mapsto>
                                   \<lparr>rows = rows t @ [r], seq = next_row_id t\<rparr>))\<rparr>)))))"

text \<open>
  The table the \<^verbatim>\<open>INSERT\<close> of a run meets on a store: the existing \<^verbatim>\<open>topics\<close>
  table, or the empty one \<^verbatim>\<open>init_db\<close> has just created. The store accepts a topic
  when the \<^verbatim>\<open>INSERT\<close> does not raise on that table.
\<close>

definition table_at_insert :: "(string \<rightharpoonup> table) \<Rightarrow> table" where
  "table_at_insert tabs =
     (case tabs ''topics'' of None \<Rightarrow> \<lparr>rows = [], seq = 0\<rparr> | Some t \<Rightarrow> t)"

definition insert_accepted :: "'f world \<Rightarrow> pystr \<Rightarrow> db_file \<Rightarrow> bool" where
  "insert_accepted w topic st =
     (case st of
        Not_a_database \<Rightarrow> False
      | Database tabs \<Rightarrow> insert_error w topic (table_at_insert tabs) = None)"

section \<open>The two requests\<close>

text \<open>\<^verbatim>\<open>r.raise_for_status()\<close> raises on the status codes 400 to 599.\<close>

definition error_status :: "nat \<Rightarrow> bool" where
  "error_status code \<longleftrightarrow> 400 \<le> code \<and> code < 600"

text \<open>
  Lines 64 to 68: the lookup of \<^verbatim>\<open>data["choices"][0]["message"]["content"]\<close>, and
  the serialisation of the whole body when any step of it raises.
\<close>

definition key_choices :: pystr where
  "key_choices = [99, 104, 111, 105, 99, 101, 115]"

definition key_message :: pystr where
  "key_message = [109, 101, 115, 115, 97, 103, 101]"

definition key_content :: pystr where
  "key_content = [99, 111, 110, 116, 101, 110, 116]"

definition lookup_content :: "'f pyval \<Rightarrow> error + 'f pyval" where
  "lookup_content data =
     and_then
       (and_then
          (and_then (getitem_key data key_choices) getitem_0)
          (\<lambda>v. getitem_key v key_message))
       (\<lambda>v. getitem_key v key_content)"

text \<open>
  The specification's wording, on the JSON document itself: the body contains the field
  path \<^verbatim>\<open>choices[0].message.content\<close> when it is an object whose member
  \<^verbatim>\<open>choices\<close> is a non-empty array, whose first element is an object whose member
  \<^verbatim>\<open>message\<close> is an object with a member \<^verbatim>\<open>content\<close>.
\<close>

definition json_member :: "'f pyval \<Rightarrow> pystr \<Rightarrow> 'f pyval option" where
  "json_member v k = (case v of PDict kvs \<Rightarrow> map_of kvs k | _ \<Rightarrow> None)"

definition json_first :: "'f pyval \<Rightarrow> 'f pyval option" where
  "json_first v = (case v of PList (x # xs) \<Rightarrow> Some x | _ \<Rightarrow> None)"

definition content_at_path :: "'f pyval \<Rightarrow> 'f pyval option" where
  "content_at_path data =
     (case json_member data key_choices of
        None \<Rightarrow> None
      | Some cs \<Rightarrow>
     (case json_first cs of
        None \<Rightarrow> None
      | Some c \<Rightarrow>
     (case json_member c key_message of
        None \<Rightarrow> None
      | Some m \<Rightarrow> json_member m key_content)))"

definition call_openai ::
  "'f builtins \<Rightarrow> 'f config \<Rightarrow> 'f world \<Rightarrow> pystr \<Rightarrow> 'f state \<Rightarrow> (error + pystr) \<times> 'f state"
where
  "call_openai b cfg w prompt s =
     (let s = emit (Post_openai (OPENAI_API_KEY cfg) (OPENAI_MODEL cfg) prompt
                      (MAX_TOKENS cfg) (TEMPERATURE cfg)) s
      in case openai_reply w of
           No_reply \<Rightarrow> (Inl RequestException, s)
         | Reply code body \<Rightarrow>
             if error_status code then (Inl (HTTPError code), s)
             else
               (case body of
                  Not_json \<Rightarrow> (Inl JSONDecodeError, s)
                | Json data \<Rightarrow>
                    let content =
                          (case lookup_content data of
                             Inr c \<Rightarrow> c
                           | Inl e \<Rightarrow> PStr (json_dumps b data))
                    in (call_strip content, s)))"

definition send_telegram ::
  "'f config \<Rightarrow> 'f world \<Rightarrow> pystr \<Rightarrow> 'f state \<Rightarrow> (error + 'f pyval) \<times> 'f state"
where
  "send_telegram cfg w text s =
     (let s = emit (Post_telegram (TG_BOT_TOKEN cfg) (TG_CHAT_ID cfg) text
                      (SEND_AS_MARKDOWN cfg)) s
      in case telegram_reply w of
           No_reply \<Rightarrow> (Inl RequestException, s)
         | Reply code body \<Rightarrow>
             if error_status code then (Inl (HTTPError code), s)
             else
               (case body of
                  Not_json \<Rightarrow> (Inl JSONDecodeError, s)
                | Json v \<Rightarrow> (Inr v, s)))"

section \<open>The run\<close>

text \<open>
  The literal that starts the header at line 131: U+1F4DA, then \<^verbatim>\<open>Denn\<close> U+00ED
  \<^verbatim>\<open>t\<close> U+00E9 \<^verbatim>\<open>ma\<close> U+2014, with the spaces between.
\<close>

definition header_prefix :: pystr where
  "header_prefix = [128218, 32, 68, 101, 110, 110, 237, 32, 116, 233, 109, 97, 32, 8212, 32]"

text \<open>Lines 131 to 140: the text handed to \<^verbatim>\<open>send_telegram\<close>.\<close>

definition msg_to_send :: "'f config \<Rightarrow> 'f world \<Rightarrow> pystr \<Rightarrow> pystr" where
  "msg_to_send cfg w topic =
     (let header = header_prefix @ now_strftime w @ [10, 10];
          msg = header @ topic;
          msg = ensure_telegram_length msg default_limit
      in if SEND_AS_MARKDOWN cfg then escape_markdown msg else msg)"

definition main ::
  "'f builtins \<Rightarrow> 'f config \<Rightarrow> 'f world \<Rightarrow> 'f state \<Rightarrow> (error + unit) \<times> 'f state"
where
  "main b cfg w s0 =
     (case init_db s0 of
        (Inl e, s1) \<Rightarrow> (Inl e, s1)
      | (Inr u, s1) \<Rightarrow>
     (case call_openai b cfg w PROMPT s1 of
        (Inl e, s2) \<Rightarrow> (Inl e, emit (Print_error e) s2)
      | (Inr topic, s2) \<Rightarrow>
     (case save_topic w topic s2 of
        (Inl e, s3) \<Rightarrow> (Inl e, s3)
      | (Inr u, s3) \<Rightarrow>
     (case send_telegram cfg w (msg_to_send cfg w topic) s3 of
        (Inl e, s4) \<Rightarrow> (Inl e, s4)
      | (Inr v, s4) \<Rightarrow> (Inr (), emit Print_done s4)))))"

text \<open>
  The process: the module-level configuration, then \<^verbatim>\<open>main()\<close>, started on the
  store \<open>st\<close> with nothing done yet.
\<close>

definition program ::
  "'f builtins \<Rightarrow> (string \<rightharpoonup> pystr) \<Rightarrow> 'f world \<Rightarrow> db_file \<Rightarrow> (error + unit) \<times> 'f state"
where
  "program b env w st =
     (case load_config b env of
        Inl e \<Rightarrow> (Inl e, \<lparr>db = st, trace = []\<rparr>)
      | Inr cfg \<Rightarrow> main b cfg w \<lparr>db = st, trace = []\<rparr>)"

text \<open>An uncaught exception, \<^verbatim>\<open>SystemExit\<close> with a message included, ends the process with status 1.\<close>

definition exit_status :: "error + unit \<Rightarrow> nat" where
  "exit_status r = (case r of Inl e \<Rightarrow> 1 | Inr u \<Rightarrow> 0)"

definition topics_rows :: "db_file \<Rightarrow> row list" where
  "topics_rows st =
     (case st of
        Not_a_database \<Rightarrow> []
      | Database tabs \<Rightarrow> (case tabs ''topics'' of None \<Rightarrow> [] | Some t \<Rightarrow> rows t))"


text \<open>
  A successful answer of the generation endpoint whose body holds \<open>topic\<close> at
  \<^verbatim>\<open>choices[0].message.content\<close>.
\<close>

definition content_reply :: "pystr \<Rightarrow> 'f http_reply" where
  "content_reply topic =
     Reply 200
       (Json (PDict [(key_choices,
          PList [PDict [(key_message, PDict [(key_content, PStr topic)])]])]))"

section \<open>Sample runs\<close>

text \<open>
  Concrete values on which the theorems below are instantiated. The builtins are
  stand-ins that agree with Python on the inputs used: \<^verbatim>\<open>int("600")\<close> is 600 and
  \<^verbatim>\<open>json.dumps({}, ensure_ascii=False, indent=2)\<close> is \<^verbatim>\<open>{}\<close>.
\<close>

definition sample_builtins :: "unit builtins" where
  "sample_builtins =
     \<lparr>py_int = (\<lambda>s. if s = [54, 48, 48] then Some 600 else None),
      py_float = (\<lambda>s. if s = [48, 46, 52] then Some () else None),
      json_dumps = (\<lambda>v. [123, 125])\<rparr>"

definition sample_env :: "string \<rightharpoonup> pystr" where
  "sample_env =
     [''OPENAI_API_KEY'' \<mapsto> [115, 107], ''TG_BOT_TOKEN'' \<mapsto> [116, 111, 107],
      ''TG_CHAT_ID'' \<mapsto> [52, 50]]"

definition sample_config :: "unit config" where
  "sample_config =
     \<lparr>OPENAI_API_KEY = [115, 107],
      OPENAI_MODEL = [103, 112, 116, 45, 52, 111, 45, 109, 105, 110, 105],
      TG_BOT_TOKEN = [116, 111, 107],
      TG_CHAT_ID = [52, 50],
      MAX_TOKENS = 600,
      TEMPERATURE = (),
      DB_PATH = [116, 111, 112, 105, 99, 115, 46, 100, 98],
      SEND_AS_MARKDOWN = True\<rparr>"

text \<open>
  A world in which the generation endpoint answers with the topic \<^verbatim>\<open>T_1\<close> at the
  expected place and the messaging endpoint answers with status 500.
\<close>

definition sample_world :: "unit world" where
  "sample_world =
     \<lparr>openai_reply =
        Reply 200
          (Json (PDict [(key_choices,
             PList [PDict [(key_message, PDict [(key_content, PStr [84, 95, 49])])]])])),
      telegram_reply = Reply 500 Not_json,
      utcnow_isoformat =
        [50, 48, 50, 52, 45, 48, 49, 45, 48, 49, 84, 49, 49, 58, 48, 48, 58, 48, 48],
      now_strftime =
        [50, 48, 50, 52, 45, 48, 49, 45, 48, 49, 32, 49, 50, 58, 48, 48, 32,
         85, 84, 67, 43, 48, 49, 58, 48, 48],
      sqlite_limit_length = 1000000000\<rparr>"





section \<open>Properties of the string helpers\<close>

lemma length_truncation_marker: "length truncation_marker = 44"
  by (simp add: truncation_marker_def)

lemma length_slice_to_le: "0 \<le> n \<Longrightarrow> int (length (slice_to s n)) \<le> n"
  by (simp add: slice_to_def)

lemma length_slice_to_le_length: "length (slice_to s n) \<le> length s"
  unfolding slice_to_def by (cases "n < 0") simp_all

lemma rfind_lower: "- 1 \<le> rfind s c"
  by (induction s) (auto simp: Let_def)

lemma rfind_upper: "rfind s c < int (length s)"
  by (induction s) (auto simp: Let_def)

lemma rfind_absent: "c \<notin> set s \<Longrightarrow> rfind s c = - 1"
  by (induction s) (auto simp: Let_def)

lemma rfind_present: "c \<in> set s \<Longrightarrow> 0 \<le> rfind s c"
proof (induction s)
  case Nil
  then show ?case by simp
next
  case (Cons x xs)
  then show ?case
    using rfind_lower [of xs c] by (auto simp: Let_def)
qed

lemma rfind_hit: "0 \<le> rfind s c \<Longrightarrow> s ! nat (rfind s c) = c"
proof (induction s)
  case Nil
  then show ?case by simp
next
  case (Cons x xs)
  show ?case
  proof (cases "0 \<le> rfind xs c")
    case True
    then have "nat (rfind xs c + 1) = Suc (nat (rfind xs c))" by simp
    with True Cons.IH show ?thesis by (simp add: Let_def)
  next
    case False
    with Cons.prems show ?thesis by (simp add: Let_def split: if_splits)
  qed
qed

lemma rfind_last:
  "rfind s c < int k \<Longrightarrow> k < length s \<Longrightarrow> s ! k \<noteq> c"
proof (induction s arbitrary: k)
  case Nil
  then show ?case by simp
next
  case (Cons x xs)
  show ?case
  proof (cases k)
    case 0
    with Cons.prems show ?thesis
      using rfind_lower [of xs c] by (auto simp: Let_def split: if_splits)
  next
    case (Suc j)
    have "rfind xs c < int j"
      using Cons.prems(1) Suc rfind_lower [of xs c]
      by (auto simp: Let_def split: if_splits)
    moreover have "j < length xs" using Cons.prems(2) Suc by simp
    ultimately have "xs ! j \<noteq> c" by (rule Cons.IH)
    with Suc show ?thesis by simp
  qed
qed

lemma rfind_eqI:
  assumes "j < length s" and "s ! j = c"
    and "\<forall>k. j < k \<and> k < length s \<longrightarrow> s ! k \<noteq> c"
  shows "rfind s c = int j"
proof -
  have mem: "c \<in> set s" using assms(1,2) by (auto simp: in_set_conv_nth)
  then have nonneg: "0 \<le> rfind s c" by (rule rfind_present)
  let ?r = "nat (rfind s c)"
  have r_lt: "?r < length s" using rfind_upper [of s c] nonneg by simp
  have r_hit: "s ! ?r = c" using nonneg by (rule rfind_hit)
  have "\<not> j < ?r" using assms(3) r_lt r_hit by blast
  moreover have "\<not> ?r < j"
  proof
    assume "?r < j"
    then have "rfind s c < int j" using nonneg by simp
    then have "s ! j \<noteq> c" using assms(1) by (rule rfind_last)
    with assms(2) show False by simp
  qed
  ultimately have "?r = j" by simp
  with nonneg show ?thesis by simp
qed

lemma slice_to_nonneg: "0 \<le> n \<Longrightarrow> slice_to s n = take (nat n) s"
  by (simp add: slice_to_def)

lemma rfind_replicate_other: "rfind (replicate n 97) newline = - 1"
  by (rule rfind_absent) (simp add: newline_def)

lemma length_guarded_cut:
  assumes "200 \<le> limit"
  shows "int (length (let cut = slice_to text (limit - 200);
            last_newline = rfind cut newline;
            cut = (if last_newline > 0 then slice_to cut last_newline else cut)
        in cut)) \<le> limit - 200"
proof -
  have a: "int (length (slice_to text (limit - 200))) \<le> limit - 200"
    using assms by (intro length_slice_to_le) simp
  have b: "length (slice_to (slice_to text (limit - 200)) n)
      \<le> length (slice_to text (limit - 200))" for n
    by (rule length_slice_to_le_length)
  show ?thesis
    using a b [of "rfind (slice_to text (limit - 200)) newline"]
    by (simp add: Let_def)
qed

section \<open>The length guard: claims C1, C2 and C3\<close>

text \<open>
  C3. A string whose length is at most the limit (whatever the limit, 4000 by default)
  is returned unchanged.
\<close>

theorem ensure_telegram_length_short_unchanged:
  "int (length text) \<le> limit \<Longrightarrow> ensure_telegram_length text limit = text"
  by (simp add: ensure_telegram_length_def)

theorem ensure_telegram_length_short_unchanged_witness:
  "int (length [104, 105 :: nat]) \<le> default_limit \<and>
   ensure_telegram_length [104, 105] default_limit = [104, 105]"
  using ensure_telegram_length_short_unchanged [of "[104, 105]" default_limit]
  by (simp add: default_limit_def)

text \<open>
  C1, as stated for any limit, fails: the function takes the limit as a parameter, and
  with the limit 10 a string of 11 characters is cut to nothing and the marker alone,
  44 characters, is returned.
\<close>

theorem ensure_telegram_length_exceeds_small_limit:
  "10 < int (length (replicate 11 (97::nat)))
   \<and> ensure_telegram_length (replicate 11 97) 10 = truncation_marker
   \<and> \<not> int (length (ensure_telegram_length (replicate 11 97) 10)) \<le> 10"
  by (simp add: ensure_telegram_length_def slice_to_def Let_def length_truncation_marker)

text \<open>
  C1, amended. For every limit of at least 200, the default 4000 among them, and every
  string strictly longer than the limit, the result is at most \<open>limit - 156\<close> characters
  long, so does not exceed the limit, and ends with the truncation marker.
\<close>

theorem ensure_telegram_length_within_limit:
  assumes "200 \<le> limit" and "limit < int (length text)"
  shows "int (length (ensure_telegram_length text limit)) \<le> limit - 156
    \<and> int (length (ensure_telegram_length text limit)) \<le> limit
    \<and> suffix truncation_marker (ensure_telegram_length text limit)"
proof -
  have "int (length (ensure_telegram_length text limit)) \<le> limit - 156"
    using length_guarded_cut [OF assms(1), of "text"] assms(2)
    by (simp add: ensure_telegram_length_def Let_def length_truncation_marker)
  moreover have "suffix truncation_marker (ensure_telegram_length text limit)"
    using assms(2) by (simp add: ensure_telegram_length_def Let_def suffix_def)
  ultimately show ?thesis by simp
qed

theorem ensure_telegram_length_within_limit_witness:
  "200 \<le> default_limit \<and> default_limit < int (length (replicate 4001 (97::nat)))
   \<and> int (length (ensure_telegram_length (replicate 4001 97) default_limit)) \<le> default_limit
   \<and> suffix truncation_marker (ensure_telegram_length (replicate 4001 97) default_limit)"
proof -
  have h1: "200 \<le> default_limit" by (simp add: default_limit_def)
  have h2: "default_limit < int (length (replicate 4001 (97::nat)))"
    by (simp add: default_limit_def)
  show ?thesis
    using h1 h2 ensure_telegram_length_within_limit [OF h1 h2] by simp
qed

text \<open>
  The bound 200 of the amended C1 is the least one: below it, some string longer than
  the limit comes back longer than the limit.
\<close>

lemma ensure_telegram_length_below_200:
  assumes "limit < 200"
  shows "\<exists>text. limit < int (length text)
     \<and> \<not> int (length (ensure_telegram_length text limit)) \<le> limit"
proof -
  let ?t = "replicate (nat limit + 400) (97::nat)"
  have long: "limit < int (length ?t)" by simp
  have nonl: "rfind (slice_to ?t (limit - 200)) newline = - 1"
    by (rule rfind_absent) (auto simp: slice_to_def newline_def dest: in_set_takeD)
  have "ensure_telegram_length ?t limit = slice_to ?t (limit - 200) @ truncation_marker"
    using long nonl by (simp add: ensure_telegram_length_def Let_def)
  moreover have "int (length (slice_to ?t (limit - 200))) > limit - 44"
    using assms by (simp add: slice_to_def)
  ultimately have "\<not> int (length (ensure_telegram_length ?t limit)) \<le> limit"
    by (simp add: length_truncation_marker)
  with long show ?thesis by blast
qed

text \<open>
  C2, as stated, fails: the code backs up only when \<^verbatim>\<open>rfind\<close> returns an index
  greater than 0. At the default limit, a text that starts with a newline followed by
  4000 letters has a line boundary in its cut region (at index 0), yet the code keeps
  the hard cut of 3800 characters, where the specification's wording backs up to that
  boundary.
\<close>

theorem ensure_telegram_length_newline_at_start:
  "default_limit < int (length (newline # replicate 4000 97))
   \<and> newline \<in> set (take (nat (default_limit - 200)) (newline # replicate 4000 97))
   \<and> ensure_telegram_length (newline # replicate 4000 97) default_limit
       = newline # replicate 3799 97 @ truncation_marker
   \<and> spec_truncate (newline # replicate 4000 97) default_limit = truncation_marker
   \<and> ensure_telegram_length (newline # replicate 4000 97) default_limit
       \<noteq> spec_truncate (newline # replicate 4000 97) default_limit"
proof -
  let ?t = "newline # replicate 4000 (97::nat)"
  have cut: "take (nat (default_limit - 200)) ?t = newline # replicate 3799 97"
    by (simp add: default_limit_def)
  have sl: "slice_to ?t (default_limit - 200) = newline # replicate 3799 97"
    using cut by (simp add: slice_to_def default_limit_def)
  have long: "default_limit < int (length ?t)" by (simp add: default_limit_def)
  have code: "ensure_telegram_length ?t default_limit
       = newline # replicate 3799 97 @ truncation_marker"
    using long by (simp add: ensure_telegram_length_def Let_def sl rfind_replicate_other)
  have "dropWhile (\<lambda>c. c \<noteq> newline) (rev (newline # replicate 3799 (97::nat))) = [newline]"
    by (simp add: newline_def dropWhile_append)
  then have spec: "spec_truncate ?t default_limit = truncation_marker"
    by (simp add: spec_truncate_def cut Let_def)
  show ?thesis using long code spec cut by simp
qed

text \<open>
  C2, amended. For every limit of at least 200 and every string longer than the limit,
  let \<open>cut\<close> be the first \<open>limit - 200\<close> characters. If \<open>cut\<close> has no newline at an
  index greater than 0 (none at all, or one at index 0 only), the result is \<open>cut\<close>
  followed by the marker. If the last newline of \<open>cut\<close> is at an index \<open>j\<close> greater
  than 0, the result is the first \<open>j\<close> characters, the newline excluded, followed by
  the marker.
\<close>

theorem ensure_telegram_length_line_boundary:
  assumes "200 \<le> limit" and "limit < int (length text)"
  shows "let cut = take (nat (limit - 200)) text in
     ((\<forall>i. 0 < i \<and> i < length cut \<longrightarrow> cut ! i \<noteq> newline) \<longrightarrow>
        ensure_telegram_length text limit = cut @ truncation_marker) \<and>
     (\<forall>j. 0 < j \<and> j < length cut \<and> cut ! j = newline \<and>
          (\<forall>k. j < k \<and> k < length cut \<longrightarrow> cut ! k \<noteq> newline) \<longrightarrow>
        ensure_telegram_length text limit = take j text @ truncation_marker)"
proof -
  define cut where "cut = take (nat (limit - 200)) text"
  have cut_eq: "slice_to text (limit - 200) = cut"
    using assms(1) by (simp add: cut_def slice_to_nonneg)
  have code: "ensure_telegram_length text limit =
      (if 0 < rfind cut newline then slice_to cut (rfind cut newline) else cut)
        @ truncation_marker"
    using assms(2) by (simp add: ensure_telegram_length_def Let_def cut_eq)
  have hard: "ensure_telegram_length text limit = cut @ truncation_marker"
    if none: "\<forall>i. 0 < i \<and> i < length cut \<longrightarrow> cut ! i \<noteq> newline"
  proof -
    have "\<not> 0 < rfind cut newline"
    proof
      assume pos: "0 < rfind cut newline"
      then have "cut ! nat (rfind cut newline) = newline"
        by (intro rfind_hit) simp
      moreover have "0 < nat (rfind cut newline)" using pos by simp
      moreover have "nat (rfind cut newline) < length cut"
        using rfind_upper [of cut newline] pos by simp
      ultimately show False using none by blast
    qed
    then show ?thesis by (simp add: code)
  qed
  have backed: "ensure_telegram_length text limit = take j text @ truncation_marker"
    if j: "0 < j" "j < length cut" "cut ! j = newline"
      "\<forall>k. j < k \<and> k < length cut \<longrightarrow> cut ! k \<noteq> newline" for j
  proof -
    have r: "rfind cut newline = int j"
      using j(2,3,4) by (rule rfind_eqI)
    have "j \<le> nat (limit - 200)"
      using j(2) by (simp add: cut_def)
    then have "take j cut = take j text"
      by (simp add: cut_def min_def)
    then show ?thesis using j(1) r by (simp add: code slice_to_nonneg)
  qed
  show ?thesis
    unfolding Let_def cut_def [symmetric] using hard backed by blast
qed

theorem ensure_telegram_length_line_boundary_witness:
  "(200::int) \<le> 205 \<and> 205 < int (length ([97, 98, 10, 99, 100] @ replicate 201 (120::nat)))
   \<and> ensure_telegram_length ([97, 98, 10, 99, 100] @ replicate 201 120) 205
       = [97, 98] @ truncation_marker"
proof -
  let ?t = "[97, 98, 10, 99, 100] @ replicate 201 (120::nat)"
  let ?c = "[97, 98, 10, 99, 100::nat]"
  have h1: "(200::int) \<le> 205" by simp
  have h2: "205 < int (length ?t)" by simp
  have cut: "take (nat (205 - 200)) ?t = ?c" by simp
  note th = ensure_telegram_length_line_boundary [OF h1 h2, unfolded Let_def cut]
  from th have "\<forall>j. 0 < j \<and> j < length ?c \<and> ?c ! j = newline \<and>
          (\<forall>k. j < k \<and> k < length ?c \<longrightarrow> ?c ! k \<noteq> newline) \<longrightarrow>
        ensure_telegram_length ?t 205 = take j ?t @ truncation_marker"
    by (rule conjunct2)
  then have inst: "0 < (2::nat) \<and> 2 < length ?c \<and> ?c ! 2 = newline \<and>
          (\<forall>k. 2 < k \<and> k < length ?c \<longrightarrow> ?c ! k \<noteq> newline) \<longrightarrow>
        ensure_telegram_length ?t 205 = take 2 ?t @ truncation_marker"
    by (rule spec)
  have later: "\<forall>k. 2 < k \<and> k < length ?c \<longrightarrow> ?c ! k \<noteq> newline"
  proof (intro allI impI)
    fix k :: nat
    assume "2 < k \<and> k < length ?c"
    then have "k = 3 \<or> k = 4" by auto
    then show "?c ! k \<noteq> newline"
      by (auto simp: newline_def)
  qed
  have "0 < (2::nat) \<and> 2 < length ?c \<and> ?c ! 2 = newline"
    by (simp add: newline_def)
  with later inst have "ensure_telegram_length ?t 205 = take 2 ?t @ truncation_marker"
    by blast
  then show ?thesis by simp
qed

section \<open>Markup escaping: claim C4\<close>

lemma str_replace_char:
  "str_replace s [c] new = concat (map (\<lambda>x. if x = c then new else [x]) s)"
  by (induction s) auto

lemma escape_markdown_Nil: "escape_markdown [] = []"
  by (simp add: escape_markdown_def)

lemma escape_markdown_Cons:
  "escape_markdown (x # xs) = (if metachar x then [backslash, x] else [x]) @ escape_markdown xs"
proof -
  have split: "escape_markdown (x # xs) = escape_markdown [x] @ escape_markdown xs"
    unfolding escape_markdown_def
    by (simp only: str_replace_char map_append concat_append
          append_Cons [symmetric] append_Nil [symmetric])
       (simp add: str_replace_char)
  have one: "escape_markdown [x] = (if metachar x then [backslash, x] else [x])"
    by (simp add: escape_markdown_def metachar_def backslash_def)
  show ?thesis using split one by simp
qed

lemma escape_markdown_concat:
  "escape_markdown msg = concat (map (\<lambda>c. if metachar c then [backslash, c] else [c]) msg)"
  by (induction msg) (simp_all add: escape_markdown_Nil escape_markdown_Cons del: append.simps)

lemma escaped_Nil: "escaped []"
  by (simp add: escaped_def)

lemma escaped_plain: "escaped ys \<Longrightarrow> \<not> metachar x \<Longrightarrow> escaped (x # ys)"
  unfolding escaped_def
proof (intro allI impI)
  fix i
  assume h: "\<forall>i<length ys. metachar (ys ! i) \<longrightarrow> 0 < i \<and> ys ! (i - 1) = backslash"
    and nx: "\<not> metachar x" and i: "i < length (x # ys)" and m: "metachar ((x # ys) ! i)"
  show "0 < i \<and> (x # ys) ! (i - 1) = backslash"
  proof (cases i)
    case 0
    with nx m show ?thesis by simp
  next
    case (Suc j)
    with i m h have "0 < j \<and> ys ! (j - 1) = backslash" by simp
    with Suc show ?thesis by (cases j) simp_all
  qed
qed

lemma escaped_meta: "escaped ys \<Longrightarrow> escaped (backslash # x # ys)"
  unfolding escaped_def
proof (intro allI impI)
  fix i
  assume h: "\<forall>i<length ys. metachar (ys ! i) \<longrightarrow> 0 < i \<and> ys ! (i - 1) = backslash"
    and i: "i < length (backslash # x # ys)" and m: "metachar ((backslash # x # ys) ! i)"
  have nb: "\<not> metachar backslash" by (simp add: metachar_def backslash_def)
  show "0 < i \<and> (backslash # x # ys) ! (i - 1) = backslash"
  proof (cases i)
    case 0
    with nb m show ?thesis by simp
  next
    case (Suc j)
    show ?thesis
    proof (cases j)
      case 0
      with Suc show ?thesis by simp
    next
      case (Suc k)
      with \<open>i = Suc j\<close> i m h have "0 < k \<and> ys ! (k - 1) = backslash" by simp
      with Suc \<open>i = Suc j\<close> show ?thesis by (cases k) simp_all
    qed
  qed
qed

lemma escaped_escape_markdown: "escaped (escape_markdown msg)"
  by (induction msg)
     (simp_all add: escape_markdown_Nil escape_markdown_Cons escaped_Nil escaped_plain escaped_meta)

text \<open>
  C4. The escaped text is the input with a backslash inserted before each underscore,
  asterisk, backtick and open bracket, every other character kept in place; so every
  metacharacter of the escaped text stands right after a backslash.
\<close>

theorem escape_markdown_backslashes:
  "escape_markdown msg
     = concat (map (\<lambda>c. if c = 95 \<or> c = 42 \<or> c = 96 \<or> c = 91 then [92, c] else [c]) msg)
   \<and> (\<forall>i<length (escape_markdown msg).
        escape_markdown msg ! i \<in> {95, 42, 96, 91} \<longrightarrow>
        0 < i \<and> escape_markdown msg ! (i - 1) = 92)"
proof -
  have "escape_markdown msg
     = concat (map (\<lambda>c. if c = 95 \<or> c = 42 \<or> c = 96 \<or> c = 91 then [92, c] else [c]) msg)"
    using escape_markdown_concat [of msg] unfolding metachar_def backslash_def .
  moreover have "\<forall>i<length (escape_markdown msg).
        escape_markdown msg ! i \<in> {95, 42, 96, 91} \<longrightarrow>
        0 < i \<and> escape_markdown msg ! (i - 1) = 92"
    using escaped_escape_markdown [of msg]
    unfolding escaped_def metachar_def backslash_def by simp
  ultimately show ?thesis by blast
qed

theorem escape_markdown_backslashes_witness:
  "escape_markdown [97, 95, 98] = [97, 92, 95, 98]
   \<and> 2 < length (escape_markdown [97, 95, 98])
   \<and> escape_markdown [97, 95, 98] ! 2 \<in> {95, 42, 96, 91}
   \<and> escape_markdown [97, 95, 98] ! (2 - 1) = 92"
proof -
  note th = escape_markdown_backslashes [of "[97, 95, 98]"]
  from th have e: "escape_markdown [97, 95, 98] = [97, 92, 95, 98]" by simp
  from th have "\<forall>i<length (escape_markdown [97, 95, 98]).
        escape_markdown [97, 95, 98] ! i \<in> {95, 42, 96, 91} \<longrightarrow>
        0 < i \<and> escape_markdown [97, 95, 98] ! (i - 1) = 92"
    by (rule conjunct2)
  then have "2 < length (escape_markdown [97, 95, 98]) \<longrightarrow>
        escape_markdown [97, 95, 98] ! 2 \<in> {95, 42, 96, 91} \<longrightarrow>
        0 < (2::nat) \<and> escape_markdown [97, 95, 98] ! (2 - 1) = 92"
    by (rule spec)
  with e show ?thesis by simp
qed

section \<open>Configuration: claim C5\<close>

lemma load_config_missing:
  assumes "env ''OPENAI_API_KEY'' \<in> {None, Some []} \<or> env ''TG_BOT_TOKEN'' \<in> {None, Some []}
    \<or> env ''TG_CHAT_ID'' \<in> {None, Some []}"
  shows "load_config b env =
     (if py_int b (environ_get env ''MAX_TOKENS'' [54, 48, 48]) = None
         \<or> py_float b (environ_get env ''TEMPERATURE'' [48, 46, 52]) = None
      then Inl ValueError else Inl (SystemExit missing_env_message))"
  using assms by (auto simp: load_config_def truthy_def split: option.splits)

text \<open>
  C5. When one of the three credentials is missing from the environment (absent, or
  set to the empty string, which line 27 treats alike), the process
  ends with status 1 on an error raised while the configuration is read, and nothing
  has happened: no request was issued and the store is untouched. The error is the
  \<^verbatim>\<open>SystemExit\<close> of line 28 with its message whenever \<^verbatim>\<open>MAX_TOKENS\<close> and
  \<^verbatim>\<open>TEMPERATURE\<close> parse; otherwise it is the \<^verbatim>\<open>ValueError\<close> that \<^verbatim>\<open>int\<close> or
  \<^verbatim>\<open>float\<close> raises at lines 22 and 23, before the check is reached.
\<close>

theorem missing_credential_aborts:
  assumes "env ''OPENAI_API_KEY'' \<in> {None, Some []} \<or> env ''TG_BOT_TOKEN'' \<in> {None, Some []}
    \<or> env ''TG_CHAT_ID'' \<in> {None, Some []}"
  shows "(fst (program b env w st) = Inl (SystemExit missing_env_message)
          \<or> fst (program b env w st) = Inl ValueError)
    \<and> (py_int b (environ_get env ''MAX_TOKENS'' [54, 48, 48]) \<noteq> None
        \<and> py_float b (environ_get env ''TEMPERATURE'' [48, 46, 52]) \<noteq> None
       \<longrightarrow> fst (program b env w st) = Inl (SystemExit missing_env_message))
    \<and> exit_status (fst (program b env w st)) = 1
    \<and> snd (program b env w st) = \<lparr>db = st, trace = []\<rparr>"
  using load_config_missing [OF assms, of b]
  by (simp add: program_def exit_status_def)

theorem missing_credential_aborts_witness:
  "(sample_env(''TG_CHAT_ID'' := None)) ''TG_CHAT_ID'' = None
   \<and> program sample_builtins (sample_env(''TG_CHAT_ID'' := None)) sample_world
        (Database Map.empty)
      = (Inl (SystemExit missing_env_message), \<lparr>db = Database Map.empty, trace = []\<rparr>)"
proof -
  let ?env = "sample_env(''TG_CHAT_ID'' := None)"
  have h: "?env ''OPENAI_API_KEY'' \<in> {None, Some []} \<or> ?env ''TG_BOT_TOKEN'' \<in> {None, Some []}
      \<or> ?env ''TG_CHAT_ID'' \<in> {None, Some []}"
    by simp
  have p: "py_int sample_builtins (environ_get ?env ''MAX_TOKENS'' [54, 48, 48]) \<noteq> None
        \<and> py_float sample_builtins (environ_get ?env ''TEMPERATURE'' [48, 46, 52]) \<noteq> None"
    by (simp add: sample_builtins_def sample_env_def environ_get_def)
  from missing_credential_aborts [OF h, of sample_builtins sample_world "Database Map.empty"] p
  have "fst (program sample_builtins ?env sample_world (Database Map.empty))
          = Inl (SystemExit missing_env_message)"
    and "snd (program sample_builtins ?env sample_world (Database Map.empty))
          = \<lparr>db = Database Map.empty, trace = []\<rparr>"
    by blast+
  then show ?thesis by (simp add: prod_eq_iff)
qed

section \<open>The schema: claim C9\<close>

lemma init_db_fail: "db s = Not_a_database \<Longrightarrow> init_db s = (Inl DatabaseError, s)"
  by (simp add: init_db_def)

text \<open>
  C9. A second \<^verbatim>\<open>init_db\<close> ends as the first and leaves the store as the first left
  it. On a store that is a database neither call raises, and afterwards there is
  exactly one table named \<^verbatim>\<open>topics\<close>: the one that existed, untouched, or a new empty
  one, beside the other tables, which are unchanged.
\<close>

theorem init_db_idempotent:
  "db (snd (init_db (snd (init_db s)))) = db (snd (init_db s))
   \<and> fst (init_db (snd (init_db s))) = fst (init_db s)
   \<and> (\<forall>tabs. db s = Database tabs \<longrightarrow>
        fst (init_db s) = Inr () \<and> fst (init_db (snd (init_db s))) = Inr ()
        \<and> (\<exists>tabs'. db (snd (init_db s)) = Database tabs'
              \<and> tabs' ''topics'' \<noteq> None
              \<and> dom tabs' = insert ''topics'' (dom tabs)
              \<and> (\<forall>name. name \<noteq> ''topics'' \<longrightarrow> tabs' name = tabs name)
              \<and> (tabs ''topics'' = None \<longrightarrow> tabs' ''topics'' = Some \<lparr>rows = [], seq = 0\<rparr>)
              \<and> (tabs ''topics'' \<noteq> None \<longrightarrow> tabs' = tabs)))"
proof (cases "db s")
  case Not_a_database
  then show ?thesis by (simp add: init_db_fail)
next
  case (Database tabs)
  show ?thesis
  proof (cases "tabs ''topics''")
    case None
    with Database show ?thesis
      by (auto simp: init_db_def emit_def)
  next
    case (Some t)
    with Database show ?thesis
      by (auto simp: init_db_def emit_def)
  qed
qed

theorem init_db_idempotent_witness:
  "db \<lparr>db = Database Map.empty, trace = ([] :: unit event list)\<rparr> = Database Map.empty
   \<and> fst (init_db \<lparr>db = Database Map.empty, trace = ([] :: unit event list)\<rparr>) = Inr ()
   \<and> fst (init_db (snd (init_db \<lparr>db = Database Map.empty, trace = ([] :: unit event list)\<rparr>)))
       = Inr ()
   \<and> db (snd (init_db (snd (init_db \<lparr>db = Database Map.empty,
                                        trace = ([] :: unit event list)\<rparr>))))
       = Database [''topics'' \<mapsto> \<lparr>rows = [], seq = 0\<rparr>]"
proof -
  let ?s = "\<lparr>db = Database Map.empty, trace = ([] :: unit event list)\<rparr>"
  have h: "db ?s = Database Map.empty" by simp
  have one: "db (snd (init_db ?s)) = Database [''topics'' \<mapsto> \<lparr>rows = [], seq = 0\<rparr>]"
    by (simp add: init_db_def emit_def)
  from init_db_idempotent [of ?s] h one show ?thesis by simp
qed


section \<open>The content lookup\<close>


lemma lookup_content_present:
  "content_at_path data = Some v \<Longrightarrow> lookup_content data = Inr v"
  by (auto simp: lookup_content_def content_at_path_def and_then_def getitem_key_def
        getitem_0_def json_member_def json_first_def
      split: pyval.splits option.splits list.splits)

section \<open>The operations of a run\<close>

lemma call_openai_state:
  "snd (call_openai b cfg w prompt s) =
     emit (Post_openai (OPENAI_API_KEY cfg) (OPENAI_MODEL cfg) prompt
                      (MAX_TOKENS cfg) (TEMPERATURE cfg)) s"
  by (simp add: call_openai_def Let_def split: http_reply.splits body.splits)

lemma call_openai_result_indep:
  "fst (call_openai b cfg w prompt s) = fst (call_openai b cfg w prompt s')"
  by (simp add: call_openai_def Let_def split: http_reply.splits body.splits)


lemma send_telegram_state:
  "snd (send_telegram cfg w txt s) =
     emit (Post_telegram (TG_BOT_TOKEN cfg) (TG_CHAT_ID cfg) txt (SEND_AS_MARKDOWN cfg)) s"
  by (simp add: send_telegram_def Let_def split: http_reply.splits body.splits)

lemma send_telegram_result:
  "fst (send_telegram cfg w txt s) =
     (case telegram_reply w of
        No_reply \<Rightarrow> Inl RequestException
      | Reply code body \<Rightarrow>
          if error_status code then Inl (HTTPError code)
          else (case body of Not_json \<Rightarrow> Inl JSONDecodeError | Json v \<Rightarrow> Inr v))"
  by (simp add: send_telegram_def Let_def split: http_reply.splits body.splits)

lemma save_topic_ok:
  assumes "db s = Database tabs" and "tabs ''topics'' = Some t"
    and "insert_error w topic t = None"
  shows "save_topic w topic s =
     (Inr (), \<lparr>db = Database (tabs(''topics'' \<mapsto>
                  \<lparr>rows = rows t @ [\<lparr>row_id = next_row_id t,
                      created_utc = utcnow_isoformat w, content = topic\<rparr>],
                   seq = next_row_id t\<rparr>)),
               trace = trace s @ [Commit_row \<lparr>row_id = next_row_id t,
                      created_utc = utcnow_isoformat w, content = topic\<rparr>]\<rparr>)"
  using assms by (simp add: save_topic_def emit_def Let_def)

lemma save_topic_refused:
  assumes "db s = Database tabs" and "tabs ''topics'' = Some t"
    and "insert_error w topic t = Some e"
  shows "save_topic w topic s = (Inl e, s)"
  using assms by (simp add: save_topic_def)

lemma save_topic_rows:
  "topics_rows (db (snd (save_topic w topic s))) = topics_rows (db s)
   \<or> (\<exists>r. content r = topic
         \<and> topics_rows (db (snd (save_topic w topic s))) = topics_rows (db s) @ [r])"
  by (auto simp: save_topic_def emit_def Let_def topics_rows_def
      split: db_file.splits option.splits)

lemma init_db_rows: "topics_rows (db (snd (init_db s))) = topics_rows (db s)"
  by (auto simp: init_db_def emit_def topics_rows_def split: db_file.splits option.splits)

section \<open>The shape of a run\<close>

text \<open>
  The three ways \<^verbatim>\<open>main()\<close> ends: the schema cannot be written, the generation
  fails, or a topic is generated, committed and posted.
\<close>

lemma main_init_fails:
  "db s0 = Not_a_database \<Longrightarrow> main b cfg w s0 = (Inl DatabaseError, s0)"
  by (simp add: main_def init_db_def)

lemma main_generate_fails:
  assumes "db s0 = Database tabs" and "fst (call_openai b cfg w PROMPT s0) = Inl e"
  shows "fst (main b cfg w s0) = Inl e"
    and "trace (snd (main b cfg w s0)) = trace s0 @
        [Commit_schema,
         Post_openai (OPENAI_API_KEY cfg) (OPENAI_MODEL cfg) PROMPT (MAX_TOKENS cfg) (TEMPERATURE cfg),
         Print_error e]"
    and "topics_rows (db (snd (main b cfg w s0))) = topics_rows (db s0)"
proof -
  obtain s1 where i: "init_db s0 = (Inr (), s1)"
    and t1: "trace s1 = trace s0 @ [Commit_schema]"
    and r1: "topics_rows (db s1) = topics_rows (db s0)"
    using assms(1) init_db_rows [of s0] by (auto simp: init_db_def emit_def)
  obtain s2 where c: "call_openai b cfg w PROMPT s1 = (Inl e, s2)"
    and s2: "s2 = emit (Post_openai (OPENAI_API_KEY cfg) (OPENAI_MODEL cfg) PROMPT
                      (MAX_TOKENS cfg) (TEMPERATURE cfg)) s1"
    using assms(2) call_openai_result_indep [of b cfg w PROMPT s1 s0]
      call_openai_state [of b cfg w PROMPT s1]
    by (cases "call_openai b cfg w PROMPT s1") simp
  have m: "main b cfg w s0 = (Inl e, emit (Print_error e) s2)"
    by (simp add: main_def i c)
  show "fst (main b cfg w s0) = Inl e" by (simp add: m)
  show "trace (snd (main b cfg w s0)) = trace s0 @
        [Commit_schema,
         Post_openai (OPENAI_API_KEY cfg) (OPENAI_MODEL cfg) PROMPT (MAX_TOKENS cfg) (TEMPERATURE cfg),
         Print_error e]"
    by (simp add: m s2 emit_def t1)
  show "topics_rows (db (snd (main b cfg w s0))) = topics_rows (db s0)"
    by (simp add: m s2 emit_def r1)
qed

lemma main_persist_fails:
  assumes "db s0 = Database tabs" and "fst (call_openai b cfg w PROMPT s0) = Inr topic"
    and "\<not> insert_accepted w topic (db s0)"
  shows "\<exists>e. insert_error w topic (table_at_insert tabs) = Some e
      \<and> fst (main b cfg w s0) = Inl e
      \<and> topics_rows (db (snd (main b cfg w s0))) = topics_rows (db s0)
      \<and> trace (snd (main b cfg w s0)) = trace s0 @
          [Commit_schema,
           Post_openai (OPENAI_API_KEY cfg) (OPENAI_MODEL cfg) PROMPT (MAX_TOKENS cfg)
             (TEMPERATURE cfg)]"
proof -
  define tabs1 where "tabs1 = (case tabs ''topics'' of
                      None \<Rightarrow> tabs(''topics'' \<mapsto> \<lparr>rows = [], seq = 0\<rparr>)
                    | Some t \<Rightarrow> tabs)"
  define s1 where "s1 = s0\<lparr>db := Database tabs1, trace := trace s0 @ [Commit_schema]\<rparr>"
  have i: "init_db s0 = (Inr (), s1)"
    using assms(1) by (simp add: init_db_def emit_def s1_def tabs1_def)
  define t where "t = table_at_insert tabs"
  have t: "tabs1 ''topics'' = Some t" and rt: "rows t = topics_rows (db s0)"
    using assms(1)
    by (cases "tabs ''topics''"; simp add: tabs1_def topics_rows_def t_def table_at_insert_def)+
  obtain e where e: "insert_error w topic t = Some e"
    using assms(1,3) by (auto simp: insert_accepted_def t_def)
  define s2 where "s2 = emit (Post_openai (OPENAI_API_KEY cfg) (OPENAI_MODEL cfg) PROMPT
                      (MAX_TOKENS cfg) (TEMPERATURE cfg)) s1"
  have c: "call_openai b cfg w PROMPT s1 = (Inr topic, s2)"
    using assms(2) call_openai_result_indep [of b cfg w PROMPT s1 s0]
      call_openai_state [of b cfg w PROMPT s1]
    by (cases "call_openai b cfg w PROMPT s1") (simp add: s2_def)
  have db2: "db s2 = Database tabs1" by (simp add: s2_def emit_def s1_def)
  have sv: "save_topic w topic s2 = (Inl e, s2)"
    using db2 t e by (rule save_topic_refused)
  have m: "main b cfg w s0 = (Inl e, s2)"
    by (simp add: main_def i c sv)
  have "topics_rows (db s2) = topics_rows (db s0)"
    using t rt by (simp add: db2 topics_rows_def)
  moreover have "trace s2 = trace s0 @
          [Commit_schema,
           Post_openai (OPENAI_API_KEY cfg) (OPENAI_MODEL cfg) PROMPT (MAX_TOKENS cfg)
             (TEMPERATURE cfg)]"
    by (simp add: s2_def s1_def emit_def)
  ultimately show ?thesis using e m by (simp add: t_def)
qed

lemma main_generated:
  assumes "db s0 = Database tabs" and "fst (call_openai b cfg w PROMPT s0) = Inr topic"
    and "insert_accepted w topic (db s0)"
  shows "\<exists>r. content r = topic \<and> created_utc r = utcnow_isoformat w
      \<and> topics_rows (db (snd (main b cfg w s0))) = topics_rows (db s0) @ [r]
      \<and> trace (snd (main b cfg w s0)) = trace s0 @
          [Commit_schema,
           Post_openai (OPENAI_API_KEY cfg) (OPENAI_MODEL cfg) PROMPT (MAX_TOKENS cfg)
             (TEMPERATURE cfg),
           Commit_row r,
           Post_telegram (TG_BOT_TOKEN cfg) (TG_CHAT_ID cfg) (msg_to_send cfg w topic)
             (SEND_AS_MARKDOWN cfg)]
          @ (case fst (main b cfg w s0) of Inl e \<Rightarrow> [] | Inr u \<Rightarrow> [Print_done])
      \<and> fst (main b cfg w s0) =
          (case fst (send_telegram cfg w (msg_to_send cfg w topic) s0) of
             Inl e \<Rightarrow> Inl e | Inr v \<Rightarrow> Inr ())"
proof -
  define tabs1 where "tabs1 = (case tabs ''topics'' of
                      None \<Rightarrow> tabs(''topics'' \<mapsto> \<lparr>rows = [], seq = 0\<rparr>)
                    | Some t \<Rightarrow> tabs)"
  define s1 where "s1 = s0\<lparr>db := Database tabs1, trace := trace s0 @ [Commit_schema]\<rparr>"
  have i: "init_db s0 = (Inr (), s1)"
    using assms(1) by (simp add: init_db_def emit_def s1_def tabs1_def)
  define t where "t = table_at_insert tabs"
  have t: "tabs1 ''topics'' = Some t" and rt: "rows t = topics_rows (db s0)"
    using assms(1)
    by (cases "tabs ''topics''"; simp add: tabs1_def topics_rows_def t_def table_at_insert_def)+
  have ok: "insert_error w topic t = None"
    using assms(1,3) by (simp add: insert_accepted_def t_def)
  define s2 where "s2 = emit (Post_openai (OPENAI_API_KEY cfg) (OPENAI_MODEL cfg) PROMPT
                      (MAX_TOKENS cfg) (TEMPERATURE cfg)) s1"
  have c: "call_openai b cfg w PROMPT s1 = (Inr topic, s2)"
    using assms(2) call_openai_result_indep [of b cfg w PROMPT s1 s0]
      call_openai_state [of b cfg w PROMPT s1]
    by (cases "call_openai b cfg w PROMPT s1") (simp add: s2_def)
  define r where "r = \<lparr>row_id = next_row_id t, created_utc = utcnow_isoformat w, content = topic\<rparr>"
  define s3 where "s3 = \<lparr>db = Database (tabs1(''topics'' \<mapsto>
                  \<lparr>rows = rows t @ [r], seq = next_row_id t\<rparr>)),
               trace = trace s2 @ [Commit_row r]\<rparr>"
  have db2: "db s2 = Database tabs1" by (simp add: s2_def emit_def s1_def)
  have sv: "save_topic w topic s2 = (Inr (), s3)"
    using save_topic_ok [OF db2 t ok] by (simp add: s3_def r_def)
  define s4 where "s4 = emit (Post_telegram (TG_BOT_TOKEN cfg) (TG_CHAT_ID cfg)
      (msg_to_send cfg w topic) (SEND_AS_MARKDOWN cfg)) s3"
  have st: "snd (send_telegram cfg w (msg_to_send cfg w topic) s3) = s4"
    by (simp add: send_telegram_state s4_def)
  have fs: "fst (send_telegram cfg w (msg_to_send cfg w topic) s3)
      = fst (send_telegram cfg w (msg_to_send cfg w topic) s0)"
    by (simp add: send_telegram_result)
  have m: "main b cfg w s0 =
      (case fst (send_telegram cfg w (msg_to_send cfg w topic) s0) of
         Inl e \<Rightarrow> (Inl e, s4) | Inr v \<Rightarrow> (Inr (), emit Print_done s4))"
    using st fs
    by (cases "send_telegram cfg w (msg_to_send cfg w topic) s3")
       (auto simp: main_def i c sv split: sum.splits)
  have tr4: "trace s4 = trace s0 @
          [Commit_schema,
           Post_openai (OPENAI_API_KEY cfg) (OPENAI_MODEL cfg) PROMPT (MAX_TOKENS cfg)
             (TEMPERATURE cfg),
           Commit_row r,
           Post_telegram (TG_BOT_TOKEN cfg) (TG_CHAT_ID cfg) (msg_to_send cfg w topic)
             (SEND_AS_MARKDOWN cfg)]"
    by (simp add: s4_def s3_def s2_def s1_def emit_def)
  have db4: "topics_rows (db s4) = topics_rows (db s0) @ [r]"
    by (simp add: s4_def s3_def emit_def topics_rows_def rt)
  have "content r = topic" "created_utc r = utcnow_isoformat w" by (simp_all add: r_def)
  moreover have "topics_rows (db (snd (main b cfg w s0))) = topics_rows (db s0) @ [r]"
    using db4 by (simp add: m emit_def split: sum.splits)
  moreover have "trace (snd (main b cfg w s0)) = trace s0 @
          [Commit_schema,
           Post_openai (OPENAI_API_KEY cfg) (OPENAI_MODEL cfg) PROMPT (MAX_TOKENS cfg)
             (TEMPERATURE cfg),
           Commit_row r,
           Post_telegram (TG_BOT_TOKEN cfg) (TG_CHAT_ID cfg) (msg_to_send cfg w topic)
             (SEND_AS_MARKDOWN cfg)]
          @ (case fst (main b cfg w s0) of Inl e \<Rightarrow> [] | Inr u \<Rightarrow> [Print_done])"
    using tr4 by (simp add: m emit_def split: sum.splits)
  moreover have "fst (main b cfg w s0) =
          (case fst (send_telegram cfg w (msg_to_send cfg w topic) s0) of
             Inl e \<Rightarrow> Inl e | Inr v \<Rightarrow> Inr ())"
    by (simp add: m split: sum.splits)
  ultimately show ?thesis by blast
qed

lemma content_at_path_reply:
  "content_at_path (PDict [(key_choices,
          PList [PDict [(key_message, PDict [(key_content, v)])]])]) = Some v"
  by (simp add: content_at_path_def json_member_def json_first_def)

lemma call_openai_content:
  assumes "openai_reply w = Reply code (Json data)" and "\<not> error_status code"
    and "content_at_path data = Some (PStr t)"
  shows "fst (call_openai b cfg w prompt s) = Inr (strip t)"
  using assms lookup_content_present [OF assms(3)]
  by (simp add: call_openai_def Let_def call_strip_def)

lemma program_ok:
  "load_config b env = Inr cfg \<Longrightarrow> program b env w st = main b cfg w \<lparr>db = st, trace = []\<rparr>"
  by (simp add: program_def)

lemma call_openai_db: "db (snd (call_openai b cfg w prompt s)) = db s"
  by (simp add: call_openai_state emit_def)

lemma send_telegram_db: "db (snd (send_telegram cfg w txt s)) = db s"
  by (simp add: send_telegram_state emit_def)

lemma main_rows:
  "topics_rows (db (snd (main b cfg w s0))) = topics_rows (db s0)
   \<or> (\<exists>r. topics_rows (db (snd (main b cfg w s0))) = topics_rows (db s0) @ [r])"
proof (cases "db s0")
  case Not_a_database
  then show ?thesis by (simp add: main_init_fails)
next
  case (Database tabs)
  show ?thesis
  proof (cases "fst (call_openai b cfg w PROMPT s0)")
    case (Inl e)
    then show ?thesis using main_generate_fails(3) [OF Database Inl] by simp
  next
    case (Inr topic)
    show ?thesis
    proof (cases "insert_accepted w topic (db s0)")
      case True
      then show ?thesis using main_generated [OF Database Inr] by blast
    next
      case False
      then show ?thesis using main_persist_fails [OF Database Inr] by blast
    qed
  qed
qed

section \<open>The sample run\<close>

lemma sample_load_config: "load_config sample_builtins sample_env = Inr sample_config"
  by (simp add: load_config_def sample_builtins_def sample_env_def sample_config_def
        truthy_def environ_get_def)

lemma sample_generation:
  "fst (call_openai sample_builtins sample_config sample_world PROMPT s) = Inr [84, 95, 49]"
proof -
  have "openai_reply sample_world = Reply 200 (Json (PDict [(key_choices,
          PList [PDict [(key_message, PDict [(key_content, PStr [84, 95, 49])])]])]))"
    by (simp add: sample_world_def)
  moreover have "\<not> error_status 200" by (simp add: error_status_def)
  ultimately have "fst (call_openai sample_builtins sample_config sample_world PROMPT s)
      = Inr (strip [84, 95, 49])"
    using content_at_path_reply by (rule call_openai_content)
  then show ?thesis by (simp add: strip_def isspace_def)
qed

lemma sample_insert_accepted:
  "insert_accepted sample_world [84, 95, 49] (Database Map.empty)"
  by (simp add: insert_accepted_def insert_error_def bind_text_def utf8_encodable_def
        utf8_length_def utf8_width_def table_at_insert_def next_row_id_def sample_world_def)

section \<open>The fallback of the generation: claim C6\<close>




section \<open>Commit before notification: claim C7\<close>

text \<open>
  C7. Whenever a run issues the notification request, the trace of the run has the
  commit of a row right before that request and no notification request earlier; the
  row holds the generated topic, from which the text of the request is built, and it
  is the one row the run added to the store. If the messaging endpoint then answers
  with an error status, the process ends with \<^verbatim>\<open>HTTPError\<close> and status 1, the row
  being in the store.
\<close>

theorem topic_committed_before_notification:
  assumes "Post_telegram tok chat txt md \<in> set (trace (snd (program b env w st)))"
  shows "\<exists>cfg r pre post.
      load_config b env = Inr cfg
      \<and> fst (call_openai b cfg w PROMPT \<lparr>db = st, trace = []\<rparr>) = Inr (content r)
      \<and> txt = msg_to_send cfg w (content r)
      \<and> trace (snd (program b env w st))
          = pre @ Commit_row r # Post_telegram tok chat txt md # post
      \<and> (\<forall>a b c d. Post_telegram a b c d \<notin> set pre)
      \<and> topics_rows (db (snd (program b env w st))) = topics_rows st @ [r]
      \<and> (\<forall>code body. telegram_reply w = Reply code body \<and> error_status code \<longrightarrow>
            fst (program b env w st) = Inl (HTTPError code)
            \<and> exit_status (fst (program b env w st)) = 1)"
proof (cases "load_config b env")
  case (Inl e)
  with assms show ?thesis by (simp add: program_def)
next
  case (Inr cfg)
  let ?s0 = "\<lparr>db = st, trace = ([] :: 'a event list)\<rparr>"
  have p: "program b env w st = main b cfg w ?s0" using Inr by (rule program_ok)
  show ?thesis
  proof (cases st)
    case Not_a_database
    then have "main b cfg w ?s0 = (Inl DatabaseError, ?s0)"
      by (intro main_init_fails) simp
    with assms p show ?thesis by simp
  next
    case (Database tabs)
    then have d: "db ?s0 = Database tabs" by simp
    show ?thesis
    proof (cases "fst (call_openai b cfg w PROMPT ?s0)")
      case (Inl e)
      from main_generate_fails(2) [OF d Inl] assms p show ?thesis by simp
    next
      case gen: (Inr topic)
      have acc: "insert_accepted w topic (db ?s0)"
      proof (rule ccontr)
        assume "\<not> insert_accepted w topic (db ?s0)"
        from main_persist_fails [OF d gen this] assms p show False by auto
      qed
      from main_generated [OF d gen acc] obtain r where
        r: "content r = topic"
        and rows: "topics_rows (db (snd (main b cfg w ?s0))) = topics_rows (db ?s0) @ [r]"
        and tr: "trace (snd (main b cfg w ?s0)) = trace ?s0 @
          [Commit_schema,
           Post_openai (OPENAI_API_KEY cfg) (OPENAI_MODEL cfg) PROMPT (MAX_TOKENS cfg)
             (TEMPERATURE cfg),
           Commit_row r,
           Post_telegram (TG_BOT_TOKEN cfg) (TG_CHAT_ID cfg) (msg_to_send cfg w topic)
             (SEND_AS_MARKDOWN cfg)]
          @ (case fst (main b cfg w ?s0) of Inl e \<Rightarrow> [] | Inr u \<Rightarrow> [Print_done])"
        and res: "fst (main b cfg w ?s0) =
          (case fst (send_telegram cfg w (msg_to_send cfg w topic) ?s0) of
             Inl e \<Rightarrow> Inl e | Inr v \<Rightarrow> Inr ())"
        by blast
      let ?pre = "[Commit_schema,
           Post_openai (OPENAI_API_KEY cfg) (OPENAI_MODEL cfg) PROMPT (MAX_TOKENS cfg)
             (TEMPERATURE cfg)]"
      let ?post = "(case fst (main b cfg w ?s0) of Inl e \<Rightarrow> [] | Inr u \<Rightarrow> [Print_done])
          :: 'a event list"
      have same: "Post_telegram tok chat txt md
          = Post_telegram (TG_BOT_TOKEN cfg) (TG_CHAT_ID cfg) (msg_to_send cfg w topic)
             (SEND_AS_MARKDOWN cfg)"
        using assms p tr by (auto split: sum.splits)
      have shape: "trace (snd (program b env w st))
          = ?pre @ Commit_row r # Post_telegram tok chat txt md # ?post"
        using tr p same by simp
      have nopre: "\<forall>a b c d. Post_telegram a b c d \<notin> set ?pre" by simp
      have fails: "\<forall>code body. telegram_reply w = Reply code body \<and> error_status code \<longrightarrow>
            fst (program b env w st) = Inl (HTTPError code)
            \<and> exit_status (fst (program b env w st)) = 1"
        using res p by (simp add: send_telegram_result exit_status_def)
      have gen_r: "fst (call_openai b cfg w PROMPT ?s0) = Inr (content r)"
        using gen r by simp
      have txt_r: "txt = msg_to_send cfg w (content r)"
        using same r by simp
      have rows_r: "topics_rows (db (snd (program b env w st))) = topics_rows st @ [r]"
        using rows p by simp
      from Inr gen_r txt_r shape nopre rows_r fails
      show ?thesis by blast
    qed
  qed
qed

theorem topic_committed_before_notification_witness:
  "Post_telegram [116, 111, 107] [52, 50] (msg_to_send sample_config sample_world [84, 95, 49])
      True
     \<in> set (trace (snd (program sample_builtins sample_env sample_world (Database Map.empty))))
   \<and> fst (program sample_builtins sample_env sample_world (Database Map.empty))
       = Inl (HTTPError 500)
   \<and> (\<exists>r. content r = [84, 95, 49]
        \<and> topics_rows (db (snd (program sample_builtins sample_env sample_world
             (Database Map.empty)))) = [r])"
proof -
  let ?s0 = "\<lparr>db = Database Map.empty, trace = ([] :: unit event list)\<rparr>"
  let ?p = "program sample_builtins sample_env sample_world (Database Map.empty)"
  have p: "?p = main sample_builtins sample_config sample_world ?s0"
    using sample_load_config by (rule program_ok)
  have d: "db ?s0 = Database Map.empty" by simp
  have h: "Post_telegram [116, 111, 107] [52, 50]
      (msg_to_send sample_config sample_world [84, 95, 49]) True \<in> set (trace (snd ?p))"
    using main_generated [OF d sample_generation] sample_insert_accepted unfolding p
    by (auto simp: sample_config_def)
  from topic_committed_before_notification [OF h] obtain cfg r where
    cfg: "load_config sample_builtins sample_env = Inr cfg"
    and gen: "fst (call_openai sample_builtins cfg sample_world PROMPT ?s0) = Inr (content r)"
    and rows: "topics_rows (db (snd ?p)) = topics_rows (Database Map.empty) @ [r]"
    and fails: "\<forall>code body. telegram_reply sample_world = Reply code body \<and> error_status code
        \<longrightarrow> fst ?p = Inl (HTTPError code) \<and> exit_status (fst ?p) = 1"
    by blast
  have "cfg = sample_config" using cfg sample_load_config by simp
  then have "content r = [84, 95, 49]" using gen sample_generation [of ?s0] by simp
  moreover have "topics_rows (db (snd ?p)) = [r]"
    using rows by (simp add: topics_rows_def)
  moreover have "telegram_reply sample_world = Reply 500 Not_json \<and> error_status 500"
    by (simp add: sample_world_def error_status_def)
  then have "fst ?p = Inl (HTTPError 500)" using fails by blast
  ultimately show ?thesis using h by blast
qed

section \<open>Append-only store: claim C8\<close>

text \<open>
  C8. No operation of the program removes or changes a row of the \<^verbatim>\<open>topics\<close> table:
  \<^verbatim>\<open>init_db\<close> keeps its rows, the two requests do not touch the store, and
  \<^verbatim>\<open>save_topic\<close> keeps the rows and adds at most one at the end. After a whole run
  the rows are those from before, followed by no row or by exactly one. A run adds a
  row only by reaching the persist step: the configuration has loaded and the
  generation has returned the topic the row holds. A run that reaches the persist step
  on a store that accepts the topic adds exactly one row, holding the topic.
\<close>

theorem topics_append_only:
  "topics_rows (db (snd (init_db s))) = topics_rows (db s)
   \<and> db (snd (call_openai b cfg w prompt s)) = db s
   \<and> (topics_rows (db (snd (save_topic w topic s))) = topics_rows (db s)
      \<or> (\<exists>r. topics_rows (db (snd (save_topic w topic s))) = topics_rows (db s) @ [r]))
   \<and> db (snd (send_telegram cfg w txt s)) = db s
   \<and> (topics_rows (db (snd (program b env w st))) = topics_rows st
      \<or> (\<exists>r. topics_rows (db (snd (program b env w st))) = topics_rows st @ [r]))
   \<and> (\<forall>r. topics_rows (db (snd (program b env w st))) = topics_rows st @ [r] \<longrightarrow>
        (\<exists>c. load_config b env = Inr c
           \<and> fst (call_openai b c w PROMPT \<lparr>db = st, trace = []\<rparr>) = Inr (content r)
           \<and> Commit_row r \<in> set (trace (snd (program b env w st)))))
   \<and> (\<forall>tabs c t. st = Database tabs \<and> load_config b env = Inr c
        \<and> fst (call_openai b c w PROMPT \<lparr>db = st, trace = []\<rparr>) = Inr t
        \<and> insert_accepted w t st \<longrightarrow>
        (\<exists>r. content r = t
           \<and> topics_rows (db (snd (program b env w st))) = topics_rows st @ [r]))"
proof -
  let ?s0 = "\<lparr>db = st, trace = ([] :: 'a event list)\<rparr>"
  have run: "topics_rows (db (snd (program b env w st))) = topics_rows st
      \<or> (\<exists>r. topics_rows (db (snd (program b env w st))) = topics_rows st @ [r])"
  proof (cases "load_config b env")
    case (Inl e)
    then show ?thesis by (simp add: program_def)
  next
    case (Inr c)
    then show ?thesis
      using main_rows [of b c w ?s0] by (simp add: program_def)
  qed
  have save: "topics_rows (db (snd (save_topic w topic s))) = topics_rows (db s)
      \<or> (\<exists>r. topics_rows (db (snd (save_topic w topic s))) = topics_rows (db s) @ [r])"
    using save_topic_rows [of w topic s] by blast
  have only: "\<exists>c. load_config b env = Inr c
           \<and> fst (call_openai b c w PROMPT ?s0) = Inr (content r)
           \<and> Commit_row r \<in> set (trace (snd (program b env w st)))"
    if added: "topics_rows (db (snd (program b env w st))) = topics_rows st @ [r]" for r
  proof (cases "load_config b env")
    case (Inl e)
    with added show ?thesis by (simp add: program_def)
  next
    case (Inr c)
    have p: "program b env w st = main b c w ?s0" using Inr by (rule program_ok)
    show ?thesis
    proof (cases st)
      case Not_a_database
      then have "main b c w ?s0 = (Inl DatabaseError, ?s0)"
        by (intro main_init_fails) simp
      with added p show ?thesis by simp
    next
      case (Database tabs)
      then have d: "db ?s0 = Database tabs" by simp
      show ?thesis
      proof (cases "fst (call_openai b c w PROMPT ?s0)")
        case (Inl e)
        from main_generate_fails(3) [OF d Inl] added p show ?thesis by simp
      next
        case gen: (Inr t)
        show ?thesis
        proof (cases "insert_accepted w t (db ?s0)")
          case False
          from main_persist_fails [OF d gen False] added p show ?thesis by auto
        next
          case True
          from main_generated [OF d gen True] added p
          have "content r = t" and "Commit_row r \<in> set (trace (snd (program b env w st)))"
            by auto
          with Inr gen show ?thesis by simp
        qed
      qed
    qed
  qed
  have reached: "\<exists>r. content r = t
           \<and> topics_rows (db (snd (program b env w st))) = topics_rows st @ [r]"
    if "st = Database tabs" and "load_config b env = Inr c"
      and "fst (call_openai b c w PROMPT ?s0) = Inr t" and "insert_accepted w t st"
    for tabs c t
  proof -
    have d: "db ?s0 = Database tabs" using that(1) by simp
    have a: "insert_accepted w t (db ?s0)" using that(4) by simp
    from main_generated [OF d that(3) a] program_ok [OF that(2), of w st]
    show ?thesis by auto
  qed
  have ops: "topics_rows (db (snd (init_db s))) = topics_rows (db s)
      \<and> db (snd (call_openai b cfg w prompt s)) = db s
      \<and> db (snd (send_telegram cfg w txt s)) = db s"
    by (simp add: init_db_rows call_openai_db send_telegram_db)
  from ops save run only reached show ?thesis by blast
qed

theorem topics_append_only_witness:
  "insert_accepted sample_world [84, 95, 49] (Database Map.empty)
   \<and> (\<exists>r. content r = [84, 95, 49]
        \<and> topics_rows (db (snd (program sample_builtins sample_env sample_world
             (Database Map.empty)))) = [r])"
proof -
  let ?s0 = "\<lparr>db = Database Map.empty, trace = ([] :: unit event list)\<rparr>"
  have "\<forall>tabs c t. Database Map.empty = Database tabs
        \<and> load_config sample_builtins sample_env = Inr c
        \<and> fst (call_openai sample_builtins c sample_world PROMPT ?s0) = Inr t
        \<and> insert_accepted sample_world t (Database Map.empty) \<longrightarrow>
        (\<exists>r. content r = t
           \<and> topics_rows (db (snd (program sample_builtins sample_env sample_world
                (Database Map.empty)))) = topics_rows (Database Map.empty) @ [r])"
    using topics_append_only [of ?s0 sample_builtins sample_config sample_world "[]" "[]" "[]"
        sample_env "Database Map.empty"]
    by blast
  then have "\<exists>r. content r = [84, 95, 49]
           \<and> topics_rows (db (snd (program sample_builtins sample_env sample_world
                (Database Map.empty)))) = topics_rows (Database Map.empty) @ [r]"
    using sample_load_config sample_generation [of ?s0] sample_insert_accepted by blast
  then show ?thesis using sample_insert_accepted by (simp add: topics_rows_def)
qed

section \<open>Escaping after the length guard: claim C10\<close>

lemma length_escape_markdown:
  "length (escape_markdown s) = length s + length (filter metachar s)"
  by (induction s) (simp_all add: escape_markdown_Nil escape_markdown_Cons)

lemma strip_replicate: "\<not> isspace c \<Longrightarrow> strip (replicate n c) = replicate n c"
  by (simp add: strip_def dropWhile_replicate)

lemma msg_to_send_underscores:
  assumes "SEND_AS_MARKDOWN cfg" and "length (now_strftime w) \<le> 26"
  shows "default_limit < int (length (msg_to_send cfg w (replicate 3000 95)))"
proof -
  let ?msg = "header_prefix @ now_strftime w @ [10, 10] @ replicate 3000 (95::nat)"
  have len: "length ?msg \<le> 3043" using assms(2) by (simp add: header_prefix_def)
  then have keep: "ensure_telegram_length ?msg default_limit = ?msg"
    by (simp add: ensure_telegram_length_def default_limit_def)
  have "msg_to_send cfg w (replicate 3000 95) = escape_markdown ?msg"
    using assms(1) keep by (simp add: msg_to_send_def Let_def)
  moreover have "length (filter metachar ?msg) \<ge> 3000"
    by (simp add: metachar_def)
  ultimately show ?thesis
    by (simp add: length_escape_markdown default_limit_def)
qed

text \<open>The marker itself grows by two characters when escaped.\<close>

lemma length_escaped_marker: "length (escape_markdown truncation_marker) = 46"
  by (simp add: length_escape_markdown) (simp add: truncation_marker_def metachar_def)

text \<open>
  C10. With markup enabled and a header of ordinary length (the formatted time has at
  most 26 characters), there is a topic that the generation can return, 3000
  underscores, for which the message before escaping fits the limit of 4000, so that
  the guard leaves it whole, and the text handed to \<^verbatim>\<open>send_telegram\<close> is longer
  than 4000 characters; that text is posted to the messaging endpoint whenever the
  store accepts the topic.
\<close>

theorem escaped_message_exceeds_limit:
  assumes "SEND_AS_MARKDOWN cfg" and "length (now_strftime w) \<le> 26"
    and "db s = Database tabs"
  shows "\<exists>topic.
     fst (call_openai b cfg (w\<lparr>openai_reply := content_reply topic\<rparr>) PROMPT s) = Inr topic
     \<and> utf8_encodable topic
     \<and> int (length (header_prefix @ now_strftime w @ [10, 10] @ topic)) \<le> default_limit
     \<and> (insert_accepted w topic (db s) \<longrightarrow>
          Post_telegram (TG_BOT_TOKEN cfg) (TG_CHAT_ID cfg)
            (msg_to_send cfg (w\<lparr>openai_reply := content_reply topic\<rparr>) topic) True
          \<in> set (trace (snd (main b cfg (w\<lparr>openai_reply := content_reply topic\<rparr>) s))))
     \<and> default_limit
          < int (length (msg_to_send cfg (w\<lparr>openai_reply := content_reply topic\<rparr>) topic))"
proof -
  let ?topic = "replicate 3000 (95::nat)"
  let ?w = "w\<lparr>openai_reply := content_reply ?topic\<rparr>"
  have "openai_reply ?w = Reply 200 (Json (PDict [(key_choices,
          PList [PDict [(key_message, PDict [(key_content, PStr ?topic)])]])]))"
    by (simp add: content_reply_def)
  moreover have "\<not> error_status 200" by (simp add: error_status_def)
  ultimately have "fst (call_openai b cfg ?w PROMPT s) = Inr (strip ?topic)"
    using content_at_path_reply by (rule call_openai_content)
  then have gen: "fst (call_openai b cfg ?w PROMPT s) = Inr ?topic"
    by (simp add: strip_replicate isspace_def)
  have short: "int (length (header_prefix @ now_strftime w @ [10, 10] @ ?topic)) \<le> default_limit"
    using assms(2) by (simp add: header_prefix_def default_limit_def)
  have same: "insert_accepted ?w ?topic (db s) = insert_accepted w ?topic (db s)"
    by (simp add: insert_accepted_def insert_error_def bind_text_def split: db_file.splits)
  have sent: "Post_telegram (TG_BOT_TOKEN cfg) (TG_CHAT_ID cfg) (msg_to_send cfg ?w ?topic) True
        \<in> set (trace (snd (main b cfg ?w s)))"
    if "insert_accepted w ?topic (db s)"
    using main_generated [OF assms(3) gen] that same assms(1) by auto
  have long: "default_limit < int (length (msg_to_send cfg ?w ?topic))"
    using assms(1,2) by (intro msg_to_send_underscores) simp_all
  have enc: "utf8_encodable ?topic"
    by (simp add: utf8_encodable_def list_all_iff)
  from gen enc short sent long show ?thesis by blast
qed

theorem escaped_message_exceeds_limit_witness:
  "SEND_AS_MARKDOWN sample_config \<and> length (now_strftime sample_world) \<le> 26
   \<and> (\<exists>topic. insert_accepted sample_world topic (Database Map.empty)
        \<and> Post_telegram (TG_BOT_TOKEN sample_config) (TG_CHAT_ID sample_config)
            (msg_to_send sample_config
               (sample_world\<lparr>openai_reply := content_reply topic\<rparr>) topic) True
          \<in> set (trace (snd (main sample_builtins sample_config
               (sample_world\<lparr>openai_reply := content_reply topic\<rparr>)
               \<lparr>db = Database Map.empty, trace = []\<rparr>)))
        \<and> default_limit
          < int (length (msg_to_send sample_config
               (sample_world\<lparr>openai_reply := content_reply topic\<rparr>) topic)))"
proof -
  let ?s = "\<lparr>db = Database Map.empty, trace = ([] :: unit event list)\<rparr>"
  have h1: "SEND_AS_MARKDOWN sample_config" by (simp add: sample_config_def)
  have h2: "length (now_strftime sample_world) \<le> 26" by (simp add: sample_world_def)
  have h3: "db ?s = Database Map.empty" by simp
  have room: "insert_accepted sample_world topic (Database Map.empty)"
    if "int (length (header_prefix @ now_strftime sample_world @ [10, 10] @ topic))
          \<le> default_limit"
      and "fst (call_openai sample_builtins sample_config
          (sample_world\<lparr>openai_reply := content_reply topic\<rparr>) PROMPT ?s) = Inr topic"
      and "utf8_encodable topic" for topic
  proof -
    have "length topic \<le> 4000" using that(1) by (simp add: default_limit_def)
    moreover have "utf8_length topic \<le> 4 * length topic"
      unfolding utf8_length_def
      by (induction topic) (simp_all add: utf8_width_def)
    ultimately have "utf8_length topic \<le> 16000" by simp
    then show ?thesis
      using that(3)
      by (simp add: insert_accepted_def insert_error_def bind_text_def utf8_encodable_def
          utf8_length_def utf8_width_def table_at_insert_def next_row_id_def sample_world_def)
  qed
  from escaped_message_exceeds_limit [OF h1 h2 h3, of sample_builtins]
  obtain topic where
    gen: "fst (call_openai sample_builtins sample_config
          (sample_world\<lparr>openai_reply := content_reply topic\<rparr>) PROMPT ?s) = Inr topic"
    and enc: "utf8_encodable topic"
    and short: "int (length (header_prefix @ now_strftime sample_world @ [10, 10] @ topic))
          \<le> default_limit"
    and sent: "insert_accepted sample_world topic (db ?s) \<longrightarrow>
          Post_telegram (TG_BOT_TOKEN sample_config) (TG_CHAT_ID sample_config)
            (msg_to_send sample_config
               (sample_world\<lparr>openai_reply := content_reply topic\<rparr>) topic) True
          \<in> set (trace (snd (main sample_builtins sample_config
               (sample_world\<lparr>openai_reply := content_reply topic\<rparr>) ?s)))"
    and long: "default_limit
          < int (length (msg_to_send sample_config
               (sample_world\<lparr>openai_reply := content_reply topic\<rparr>) topic))"
    by blast
  have "insert_accepted sample_world topic (Database Map.empty)"
    using short gen enc by (rule room)
  with sent long h1 h2 show ?thesis by auto
qed

end
